theory Spec2Isabelle
  imports Complex_Main
begin

section \<open>JavaScript values read by the synchronisation core\<close>

text \<open>
  The bodies of the HTTP responses are typed \<open>any\<close> in
  \<^verbatim>\<open>frontend/src/state/SimulationContext.tsx\<close>: whatever the remote system sends is
  what the code reads and stores. A body is therefore a JavaScript value. An object is
  held as the list of its own properties (the keys of a parsed object are distinct).
\<close>

datatype jsval =
    JUndefined
  | JNull
  | JBool bool
  | JNum rat
  | JStr string
  | JArr "jsval list"
  | JObj "(string \<times> jsval) list"

text \<open>Truthiness, as tested by \<^verbatim>\<open>||\<close> and \<^verbatim>\<open>if\<close>.\<close>

fun truthy :: "jsval \<Rightarrow> bool" where
  "truthy JUndefined = False"
| "truthy JNull = False"
| "truthy (JBool b) = b"
| "truthy (JNum n) = (n \<noteq> 0)"
| "truthy (JStr s) = (s \<noteq> [])"
| "truthy (JArr xs) = True"
| "truthy (JObj kvs) = True"

text \<open>\<^verbatim>\<open>a || b\<close>\<close>

definition js_or :: "jsval \<Rightarrow> jsval \<Rightarrow> jsval" where
  "js_or a b = (if truthy a then a else b)"

text \<open>
  An AxiosResponse, of which the code reads only \<^verbatim>\<open>data\<close>, and a thrown or rejected
  error, of which the code reads \<^verbatim>\<open>message\<close> and \<^verbatim>\<open>response\<close>.
\<close>

datatype response = Response (data: jsval)

datatype js_error = JsError (message: string) (response: "response option")

text \<open>
  A function either returns or throws; the result of an awaited promise is the same
  value, \<open>Returns\<close> for fulfilled and \<open>Throws\<close> for rejected.
\<close>

datatype 'a outcome = Returns 'a | Throws js_error

text \<open>
  The property read \<^verbatim>\<open>v.k\<close>. Reading a property of \<^verbatim>\<open>null\<close> or
  \<^verbatim>\<open>undefined\<close> throws a TypeError (the text of its message is the engine's, here
  V8's); an object yields its property or \<^verbatim>\<open>undefined\<close>. The names the code reads
  (\<^verbatim>\<open>agents\<close>, \<^verbatim>\<open>status\<close>, \<^verbatim>\<open>detail\<close>) are no built-in property of a
  boolean, number, string or array, so these yield \<^verbatim>\<open>undefined\<close>.
\<close>

definition cannotRead :: "string \<Rightarrow> string \<Rightarrow> js_error" where
  "cannotRead what k =
     JsError (''Cannot read properties of '' @ what @ '' (reading '' @ [CHR 0x27] @ k @ [CHR 0x27] @ '')'') None"

fun getProp :: "jsval \<Rightarrow> string \<Rightarrow> jsval outcome" where
  "getProp JUndefined k = Throws (cannotRead ''undefined'' k)"
| "getProp JNull k = Throws (cannotRead ''null'' k)"
| "getProp (JObj kvs) k = Returns (case map_of kvs k of None \<Rightarrow> JUndefined | Some v \<Rightarrow> v)"
| "getProp v k = Returns JUndefined"

text \<open>
  The optional chain \<^verbatim>\<open>error.response?.data?.detail\<close>: \<^verbatim>\<open>undefined\<close> when the
  error carries no response or the response's body is \<^verbatim>\<open>null\<close> or
  \<^verbatim>\<open>undefined\<close>.
\<close>

definition responseDetail :: "js_error \<Rightarrow> jsval" where
  "responseDetail e =
     (case response e of
        None \<Rightarrow> JUndefined
      | Some r \<Rightarrow> (case getProp (data r) ''detail'' of Throws _ \<Rightarrow> JUndefined | Returns v \<Rightarrow> v))"

section \<open>The snapshot and its reducer\<close>

record SimulationState =
  status :: jsval
  agents :: jsval
  networkData :: jsval
  economicData :: jsval
  culturalData :: jsval
  loading :: bool
  error :: jsval
  connected :: bool

text \<open>
  The nine action types of the source, and \<open>OTHER_ACTION\<close> for an action whose type
  tag is none of them (it reaches the \<^verbatim>\<open>default\<close> branch of the switch).
\<close>

datatype SimulationAction =
    SET_LOADING bool
  | SET_ERROR jsval
  | SET_CONNECTED bool
  | SET_STATUS jsval
  | SET_AGENTS jsval
  | SET_NETWORK_DATA jsval
  | SET_ECONOMIC_DATA jsval
  | SET_CULTURAL_DATA jsval
  | UPDATE_REALTIME_DATA
  | OTHER_ACTION string

definition initialState :: SimulationState where
  "initialState =
     \<lparr> status = JNull, agents = JArr [], networkData = JNull, economicData = JNull,
       culturalData = JNull, loading = False, error = JNull, connected = False \<rparr>"

fun simulationReducer :: "SimulationState \<Rightarrow> SimulationAction \<Rightarrow> SimulationState" where
  "simulationReducer s (SET_LOADING p) = s\<lparr>loading := p\<rparr>"
| "simulationReducer s (SET_ERROR p) = s\<lparr>error := p\<rparr>"
| "simulationReducer s (SET_CONNECTED p) = s\<lparr>connected := p\<rparr>"
| "simulationReducer s (SET_STATUS p) = s\<lparr>status := p\<rparr>"
| "simulationReducer s (SET_AGENTS p) = s\<lparr>agents := p\<rparr>"
| "simulationReducer s (SET_NETWORK_DATA p) = s\<lparr>networkData := p\<rparr>"
| "simulationReducer s (SET_ECONOMIC_DATA p) = s\<lparr>economicData := p\<rparr>"
| "simulationReducer s (SET_CULTURAL_DATA p) = s\<lparr>culturalData := p\<rparr>"
| "simulationReducer s UPDATE_REALTIME_DATA = s"
| "simulationReducer s (OTHER_ACTION t) = s"

subsection \<open>The reducer on state objects\<close>

text \<open>
  Whether the reducer returns a new object or its argument is a matter of references.
  State objects live in a store, a reference is an index into it; the spread
  \<^verbatim>\<open>{ ...state, f: v }\<close> allocates a new object, \<^verbatim>\<open>return state\<close> returns the
  reference it was given.
\<close>

type_synonym ref = nat
type_synonym store = "SimulationState list"

definition alloc :: "store \<Rightarrow> SimulationState \<Rightarrow> store \<times> ref" where
  "alloc h v = (h @ [v], length h)"

fun simulationReducer_obj :: "store \<Rightarrow> ref \<Rightarrow> SimulationAction \<Rightarrow> store \<times> ref" where
  "simulationReducer_obj h r (SET_LOADING p) = alloc h ((h ! r)\<lparr>loading := p\<rparr>)"
| "simulationReducer_obj h r (SET_ERROR p) = alloc h ((h ! r)\<lparr>error := p\<rparr>)"
| "simulationReducer_obj h r (SET_CONNECTED p) = alloc h ((h ! r)\<lparr>connected := p\<rparr>)"
| "simulationReducer_obj h r (SET_STATUS p) = alloc h ((h ! r)\<lparr>status := p\<rparr>)"
| "simulationReducer_obj h r (SET_AGENTS p) = alloc h ((h ! r)\<lparr>agents := p\<rparr>)"
| "simulationReducer_obj h r (SET_NETWORK_DATA p) = alloc h ((h ! r)\<lparr>networkData := p\<rparr>)"
| "simulationReducer_obj h r (SET_ECONOMIC_DATA p) = alloc h ((h ! r)\<lparr>economicData := p\<rparr>)"
| "simulationReducer_obj h r (SET_CULTURAL_DATA p) = alloc h ((h ! r)\<lparr>culturalData := p\<rparr>)"
| "simulationReducer_obj h r UPDATE_REALTIME_DATA = alloc h (h ! r)"
| "simulationReducer_obj h r (OTHER_ACTION t) = (h, r)"

section \<open>The provider\<close>

text \<open>
  \<^verbatim>\<open>SimulationProvider\<close> holds the reducer's state and the handle of the interval
  timer (\<^verbatim>\<open>updateInterval\<close>). Around it is the environment the functions act on:
  the interval timers that are live, each with the time of its next firing, the clock,
  and the trace of what has been let out, each entry stamped with the time: HTTP
  requests and toasts. Every function below is one uninterrupted run of the event
  loop: an \<^verbatim>\<open>async\<close> function is cut at each \<^verbatim>\<open>await\<close> into the part that runs
  up to the request and the part that runs once the request has settled, so that
  anything else may be run in between.

  \<^verbatim>\<open>updateInterval\<close> is a \<^verbatim>\<open>const\<close> of one rendering of the component, and
  \<^verbatim>\<open>startRealTimeUpdates\<close> and \<^verbatim>\<open>stopRealTimeUpdates\<close> are made anew in each
  rendering: a call reads the value its rendering was given, and
  \<^verbatim>\<open>setUpdateInterval\<close> changes what the next rendering will be given, not that
  value. The two functions therefore take the value they see as an argument; it is the
  stored one when the function called was made by a rendering later than the last
  \<^verbatim>\<open>setUpdateInterval\<close>. The other functions read no state of the component.
\<close>

datatype source = Status | Agents | Network | Economy | Culture

definition url :: "source \<Rightarrow> string" where
  "url s = (case s of
      Status \<Rightarrow> ''/realtime/status''
    | Agents \<Rightarrow> ''/agents''
    | Network \<Rightarrow> ''/realtime/network''
    | Economy \<Rightarrow> ''/realtime/economy''
    | Culture \<Rightarrow> ''/realtime/culture'')"

text \<open>One element of the array \<^verbatim>\<open>Promise.allSettled\<close> resolves to.\<close>

datatype settled = Fulfilled response | Rejected js_error

datatype event =
    Get string
  | Post string jsval
  | ToastSuccess string
  | ToastError jsval

record world =
  state :: SimulationState
  updateInterval :: "nat option"
  timers :: "(nat \<times> nat) list"
  nextHandle :: nat
  clock :: nat
  trace :: "(nat \<times> event) list"

definition world0 :: world where
  "world0 = \<lparr> state = initialState, updateInterval = None, timers = [], nextHandle = 1,
              clock = 0, trace = [] \<rparr>"

definition dispatch :: "SimulationAction \<Rightarrow> world \<Rightarrow> world" where
  "dispatch a w = w\<lparr>state := simulationReducer (state w) a\<rparr>"

definition emit :: "event \<Rightarrow> world \<Rightarrow> world" where
  "emit e w = w\<lparr>trace := trace w @ [(clock w, e)]\<rparr>"

subsection \<open>refreshData\<close>

text \<open>
  Up to the \<^verbatim>\<open>await\<close>: the error is cleared and the five reads are issued. The
  array of the five settled results is a function of the position, named by its source.
\<close>

definition refreshData_begin :: "world \<Rightarrow> world" where
  "refreshData_begin w =
     (let w = dispatch (SET_ERROR JNull) w;
          w = emit (Get (url Status)) w;
          w = emit (Get (url Agents)) w;
          w = emit (Get (url Network)) w;
          w = emit (Get (url Economy)) w;
          w = emit (Get (url Culture)) w
      in w)"

text \<open>
  The rest of the \<^verbatim>\<open>try\<close> block, run when all five have settled, is five
  blocks, one for each result, each headed by a comment in the source
  (\<^verbatim>\<open>// Update status\<close> and so on).
\<close>

definition update_status :: "settled \<Rightarrow> world \<Rightarrow> world" where
  "update_status statusResponse w =
     (case statusResponse of
        Fulfilled r \<Rightarrow> dispatch (SET_CONNECTED True) (dispatch (SET_STATUS (data r)) w)
      | Rejected _ \<Rightarrow> w)"

text \<open>
  The one expression of the \<^verbatim>\<open>try\<close> block that can throw is
  \<^verbatim>\<open>agentsResponse.value.data.agents\<close>.
\<close>

definition update_agents :: "settled \<Rightarrow> world \<Rightarrow> world outcome" where
  "update_agents agentsResponse w =
     (case agentsResponse of
        Fulfilled r \<Rightarrow>
          (case getProp (data r) ''agents'' of
             Throws e \<Rightarrow> Throws e
           | Returns v \<Rightarrow> Returns (dispatch (SET_AGENTS (js_or v (JArr []))) w))
      | Rejected _ \<Rightarrow> Returns w)"

definition update_network :: "settled \<Rightarrow> world \<Rightarrow> world" where
  "update_network networkResponse w =
     (case networkResponse of
        Fulfilled r \<Rightarrow> dispatch (SET_NETWORK_DATA (data r)) w
      | Rejected _ \<Rightarrow> w)"

definition update_economic :: "settled \<Rightarrow> world \<Rightarrow> world" where
  "update_economic economicResponse w =
     (case economicResponse of
        Fulfilled r \<Rightarrow> dispatch (SET_ECONOMIC_DATA (data r)) w
      | Rejected _ \<Rightarrow> w)"

definition update_cultural :: "settled \<Rightarrow> world \<Rightarrow> world" where
  "update_cultural culturalResponse w =
     (case culturalResponse of
        Fulfilled r \<Rightarrow> dispatch (SET_CULTURAL_DATA (data r)) w
      | Rejected _ \<Rightarrow> w)"

text \<open>The world at a throw keeps what was dispatched before it.\<close>

definition refreshData_try :: "(source \<Rightarrow> settled) \<Rightarrow> world \<Rightarrow> world \<times> unit outcome" where
  "refreshData_try rs w =
     (let w = update_status (rs Status) w
      in case update_agents (rs Agents) w of
           Throws e \<Rightarrow> (w, Throws e)
         | Returns w \<Rightarrow>
             (let w = update_network (rs Network) w;
                  w = update_economic (rs Economy) w;
                  w = update_cultural (rs Culture) w
              in (w, Returns ())))"

text \<open>With the \<^verbatim>\<open>catch\<close> block.\<close>

definition refreshData_settle :: "(source \<Rightarrow> settled) \<Rightarrow> world \<Rightarrow> world \<times> unit outcome" where
  "refreshData_settle rs w =
     (case refreshData_try rs w of
        (w, Returns u) \<Rightarrow> (w, Returns u)
      | (w, Throws e) \<Rightarrow>
          (dispatch (SET_CONNECTED False) (dispatch (SET_ERROR (JStr (message e))) w), Returns ()))"

text \<open>A whole call, nothing else running between its two parts.\<close>

definition refreshData :: "(source \<Rightarrow> settled) \<Rightarrow> world \<Rightarrow> world \<times> unit outcome" where
  "refreshData rs w = refreshData_settle rs (refreshData_begin w)"

subsection \<open>controlSimulation and initializeSimulation\<close>

text \<open>
  The \<^verbatim>\<open>catch\<close> and \<^verbatim>\<open>finally\<close> blocks, shared by the two functions up to the
  fallback text; the function returns \<^verbatim>\<open>false\<close>.
\<close>

definition command_catch :: "string \<Rightarrow> js_error \<Rightarrow> world \<Rightarrow> world \<times> bool outcome" where
  "command_catch fallback e w =
     (let errorMessage = js_or (responseDetail e) (js_or (JStr (message e)) (JStr fallback));
          w = dispatch (SET_ERROR errorMessage) w;
          w = emit (ToastError errorMessage) w;
          w = dispatch (SET_LOADING False) w
      in (w, Returns False))"

text \<open>
  The last part of either function: \<^verbatim>\<open>await refreshData()\<close> has its results,
  \<^verbatim>\<open>return true\<close>, then \<^verbatim>\<open>finally\<close>.
\<close>

definition command_refreshed ::
  "string \<Rightarrow> (source \<Rightarrow> settled) \<Rightarrow> world \<Rightarrow> world \<times> bool outcome" where
  "command_refreshed fallback rs w =
     (case refreshData_settle rs w of
        (w, Throws e) \<Rightarrow> command_catch fallback e w
      | (w, Returns _) \<Rightarrow> (dispatch (SET_LOADING False) w, Returns True))"

definition controlSimulation_begin :: "string \<Rightarrow> world \<Rightarrow> world" where
  "controlSimulation_begin action w =
     (let w = dispatch (SET_LOADING True) w;
          w = dispatch (SET_ERROR JNull) w;
          w = emit (Post ''/simulation/control'' (JObj [(''action'', JStr action)])) w
      in w)"

text \<open>
  Once the POST has settled. \<open>None\<close>: the function is now awaiting
  \<^verbatim>\<open>refreshData()\<close>, whose reads have been issued; \<open>Some\<close>: it has finished.
\<close>

definition controlSimulation_posted ::
  "string \<Rightarrow> settled \<Rightarrow> world \<Rightarrow> world \<times> bool outcome option" where
  "controlSimulation_posted action post w =
     (let fallback = ''Failed to '' @ action @ '' simulation'' in
      case post of
        Rejected e \<Rightarrow> (case command_catch fallback e w of (w, b) \<Rightarrow> (w, Some b))
      | Fulfilled r \<Rightarrow>
          (case getProp (data r) ''status'' of
             Throws e \<Rightarrow> (case command_catch fallback e w of (w, b) \<Rightarrow> (w, Some b))
           | Returns v \<Rightarrow>
               if truthy v
               then (refreshData_begin
                       (emit (ToastSuccess (''Simulation '' @ action @ '' successful'')) w), None)
               else (case command_catch fallback (JsError fallback None) w of
                       (w, b) \<Rightarrow> (w, Some b))))"

definition controlSimulation_refreshed ::
  "string \<Rightarrow> (source \<Rightarrow> settled) \<Rightarrow> world \<Rightarrow> world \<times> bool outcome" where
  "controlSimulation_refreshed action rs w =
     command_refreshed (''Failed to '' @ action @ '' simulation'') rs w"

text \<open>A whole call, given how its POST and, if it gets there, its reads settle.\<close>

definition controlSimulation ::
  "string \<Rightarrow> settled \<Rightarrow> (source \<Rightarrow> settled) \<Rightarrow> world \<Rightarrow> world \<times> bool outcome" where
  "controlSimulation action post rs w =
     (case controlSimulation_posted action post (controlSimulation_begin action w) of
        (w, Some b) \<Rightarrow> (w, b)
      | (w, None) \<Rightarrow> controlSimulation_refreshed action rs w)"

definition initializeSimulation_begin :: "jsval \<Rightarrow> world \<Rightarrow> world" where
  "initializeSimulation_begin config w =
     (let w = dispatch (SET_LOADING True) w;
          w = dispatch (SET_ERROR JNull) w;
          w = emit (Post ''/simulation/initialize'' config) w
      in w)"

definition initializeSimulation_posted :: "settled \<Rightarrow> world \<Rightarrow> world \<times> bool outcome option" where
  "initializeSimulation_posted post w =
     (let fallback = ''Failed to initialize simulation'' in
      case post of
        Rejected e \<Rightarrow> (case command_catch fallback e w of (w, b) \<Rightarrow> (w, Some b))
      | Fulfilled r \<Rightarrow>
          (case getProp (data r) ''status'' of
             Throws e \<Rightarrow> (case command_catch fallback e w of (w, b) \<Rightarrow> (w, Some b))
           | Returns v \<Rightarrow>
               if v = JStr ''initialized''
               then (refreshData_begin
                       (emit (ToastSuccess ''Simulation initialized successfully'') w), None)
               else (case command_catch fallback (JsError fallback None) w of
                       (w, b) \<Rightarrow> (w, Some b))))"

definition initializeSimulation_refreshed ::
  "(source \<Rightarrow> settled) \<Rightarrow> world \<Rightarrow> world \<times> bool outcome" where
  "initializeSimulation_refreshed rs w =
     command_refreshed ''Failed to initialize simulation'' rs w"

definition initializeSimulation ::
  "jsval \<Rightarrow> settled \<Rightarrow> (source \<Rightarrow> settled) \<Rightarrow> world \<Rightarrow> world \<times> bool outcome" where
  "initializeSimulation config post rs w =
     (case initializeSimulation_posted post (initializeSimulation_begin config w) of
        (w, Some b) \<Rightarrow> (w, b)
      | (w, None) \<Rightarrow> initializeSimulation_refreshed rs w)"

subsection \<open>The interval timer\<close>

text \<open>
  \<^verbatim>\<open>setInterval(f, 2000)\<close> returns a fresh handle and makes a timer that fires
  every 2000 time units from now on until it is cleared; a handle is truthy.
\<close>

definition intervalMs :: nat where
  "intervalMs = 2000"

definition startRealTimeUpdates :: "nat option \<Rightarrow> world \<Rightarrow> world \<times> unit outcome" where
  "startRealTimeUpdates seen w =
     (case seen of
        Some _ \<Rightarrow> (w, Returns ())
      | None \<Rightarrow>
          (let interval = nextHandle w;
               w = w\<lparr>timers := timers w @ [(interval, clock w + intervalMs)],
                     nextHandle := interval + 1\<rparr>;
               w = w\<lparr>updateInterval := Some interval\<rparr>
           in (w, Returns ())))"

definition stopRealTimeUpdates :: "nat option \<Rightarrow> world \<Rightarrow> world \<times> unit outcome" where
  "stopRealTimeUpdates seen w =
     (case seen of
        Some h \<Rightarrow>
          (let w = w\<lparr>timers := filter (\<lambda>(h', t). h' \<noteq> h) (timers w)\<rparr>;
               w = w\<lparr>updateInterval := None\<rparr>
           in (w, Returns ()))
      | None \<Rightarrow> (w, Returns ()))"

text \<open>
  The environment: time passes up to \<open>t\<close>; the live timer \<open>h\<close> fires at the time set
  for it, is set for one interval later, and its callback starts \<^verbatim>\<open>refreshData()\<close>.
  A handle that is not live fires nothing.
\<close>

definition elapse :: "nat \<Rightarrow> world \<Rightarrow> world" where
  "elapse t w = w\<lparr>clock := max (clock w) t\<rparr>"

definition timerFires :: "nat \<Rightarrow> world \<Rightarrow> world" where
  "timerFires h w =
     (case map_of (timers w) h of
        None \<Rightarrow> w
      | Some t \<Rightarrow>
          (let w = elapse t w;
               w = w\<lparr>timers := map (\<lambda>(h', t'). if h' = h then (h', t' + intervalMs) else (h', t'))
                                   (timers w)\<rparr>
           in refreshData_begin w))"

section \<open>Observations\<close>

text \<open>
  What the properties below are stated with: the slot of the snapshot a source is
  written to and the value its block dispatches for a fulfilled response, whether the
  read of \<^verbatim>\<open>data.agents\<close> throws, what a run has let out, and two outcomes of a
  polling cycle to run the functions on.
\<close>

definition slot :: "source \<Rightarrow> SimulationState \<Rightarrow> jsval" where
  "slot src s = (case src of
      Status \<Rightarrow> status s
    | Agents \<Rightarrow> agents s
    | Network \<Rightarrow> networkData s
    | Economy \<Rightarrow> economicData s
    | Culture \<Rightarrow> culturalData s)"

definition payload :: "source \<Rightarrow> response \<Rightarrow> jsval outcome" where
  "payload src r = (case src of
      Agents \<Rightarrow> (case getProp (data r) ''agents'' of
                    Throws e \<Rightarrow> Throws e
                  | Returns v \<Rightarrow> Returns (js_or v (JArr [])))
    | _ \<Rightarrow> Returns (data r))"

definition throwsOnAgents :: "(source \<Rightarrow> settled) \<Rightarrow> bool" where
  "throwsOnAgents rs = (case rs Agents of
      Fulfilled r \<Rightarrow> data r = JNull \<or> data r = JUndefined
    | Rejected _ \<Rightarrow> False)"

fun isArray :: "jsval \<Rightarrow> bool" where
  "isArray (JArr xs) = True"
| "isArray v = False"

fun isPost :: "event \<Rightarrow> bool" where
  "isPost (Post u b) = True"
| "isPost e = False"

definition posts :: "world \<Rightarrow> event list" where
  "posts w = filter isPost (map snd (trace w))"



definition allFulfilled :: "jsval \<Rightarrow> source \<Rightarrow> settled" where
  "allFulfilled body = (\<lambda>_. Fulfilled (Response body))"

definition allRejected :: "source \<Rightarrow> settled" where
  "allRejected = (\<lambda>_. Rejected (JsError ''Network Error'' None))"

text \<open>
  A cycle in which the status read fails, the agents read is fulfilled with a
  \<^verbatim>\<open>null\<close> body, and the three other reads are fulfilled.
\<close>

definition statusFailsAgentsNull :: "source \<Rightarrow> settled" where
  "statusFailsAgentsNull = (\<lambda>s. case s of
      Status \<Rightarrow> Rejected (JsError ''Network Error'' None)
    | Agents \<Rightarrow> Fulfilled (Response JNull)
    | _ \<Rightarrow> Fulfilled (Response (JObj [(''nodes'', JArr [])])))"

text \<open>
  Two courses of events, every call in them made from an up-to-date rendering. In the
  first the timer is started, fires once, so that the five reads of a cycle are in
  flight, and is stopped. In the second, the one of the
  specification, the timer is started at time 0, a command is sent at 400 and
  acknowledged at 500, and the refresh it starts has its results at 600.
\<close>

definition stoppedInFlight :: world where
  "stoppedInFlight =
     (let w = fst (startRealTimeUpdates (updateInterval world0) world0);
          w = timerFires 1 w;
          w = fst (stopRealTimeUpdates (updateInterval w) w)
      in w)"


section \<open>Basic facts\<close>

subsection \<open>The reducer on state objects\<close>

lemma reducer_obj_value:
  "r < length h \<Longrightarrow>
     fst (simulationReducer_obj h r a) ! snd (simulationReducer_obj h r a) = simulationReducer (h ! r) a"
  by (cases a) (simp_all add: alloc_def nth_append)

lemma reducer_obj_keeps:
  "i < length h \<Longrightarrow> fst (simulationReducer_obj h r a) ! i = h ! i"
  by (cases a) (simp_all add: alloc_def nth_append)

lemma frame_loading: "(\<forall>p. a \<noteq> SET_LOADING p) \<longrightarrow> loading (simulationReducer s a) = loading s"
  by (cases a) auto

lemma frame_error: "(\<forall>p. a \<noteq> SET_ERROR p) \<longrightarrow> error (simulationReducer s a) = error s"
  by (cases a) auto

lemma frame_connected: "(\<forall>p. a \<noteq> SET_CONNECTED p) \<longrightarrow> connected (simulationReducer s a) = connected s"
  by (cases a) auto

lemma frame_status: "(\<forall>p. a \<noteq> SET_STATUS p) \<longrightarrow> status (simulationReducer s a) = status s"
  by (cases a) auto

lemma frame_agents: "(\<forall>p. a \<noteq> SET_AGENTS p) \<longrightarrow> agents (simulationReducer s a) = agents s"
  by (cases a) auto

lemma frame_networkData: "(\<forall>p. a \<noteq> SET_NETWORK_DATA p) \<longrightarrow> networkData (simulationReducer s a) = networkData s"
  by (cases a) auto

lemma frame_economicData: "(\<forall>p. a \<noteq> SET_ECONOMIC_DATA p) \<longrightarrow> economicData (simulationReducer s a) = economicData s"
  by (cases a) auto

lemma frame_culturalData: "(\<forall>p. a \<noteq> SET_CULTURAL_DATA p) \<longrightarrow> culturalData (simulationReducer s a) = culturalData s"
  by (cases a) auto

lemmas reducer_frame_fields =
  frame_loading frame_error frame_connected frame_status frame_agents frame_networkData frame_economicData frame_culturalData

lemma reducer_obj_fresh:
  "(\<forall>t. a \<noteq> OTHER_ACTION t) \<longrightarrow>
     snd (simulationReducer_obj h r a) = length h
     \<and> length (fst (simulationReducer_obj h r a)) = Suc (length h)"
  by (cases a) (simp_all add: alloc_def)

lemma reducer_same:
  "a = UPDATE_REALTIME_DATA \<or> (\<exists>t. a = OTHER_ACTION t) \<longrightarrow> simulationReducer s a = s"
  by auto

lemma reducer_obj_other: "(\<exists>t. a = OTHER_ACTION t) \<longrightarrow> simulationReducer_obj h r a = (h, r)"
  by auto

subsection \<open>What each part of refreshData changes\<close>

lemma dispatch_fields:
  "updateInterval (dispatch a w) = updateInterval w"
  "timers (dispatch a w) = timers w"
  "nextHandle (dispatch a w) = nextHandle w"
  "clock (dispatch a w) = clock w"
  "trace (dispatch a w) = trace w"
  "state (dispatch a w) = simulationReducer (state w) a"
  by (simp_all add: dispatch_def)

lemma emit_fields:
  "updateInterval (emit e w) = updateInterval w"
  "timers (emit e w) = timers w"
  "nextHandle (emit e w) = nextHandle w"
  "clock (emit e w) = clock w"
  "trace (emit e w) = trace w @ [(clock w, e)]"
  "state (emit e w) = state w"
  by (simp_all add: emit_def)

lemma update_status_fields:
  "updateInterval (update_status x w) = updateInterval w"
  "timers (update_status x w) = timers w"
  "nextHandle (update_status x w) = nextHandle w"
  "clock (update_status x w) = clock w"
  "trace (update_status x w) = trace w"
  by (cases x; simp add: update_status_def dispatch_fields)+

lemma update_network_fields:
  "updateInterval (update_network x w) = updateInterval w"
  "timers (update_network x w) = timers w"
  "nextHandle (update_network x w) = nextHandle w"
  "clock (update_network x w) = clock w"
  "trace (update_network x w) = trace w"
  by (cases x; simp add: update_network_def dispatch_fields)+

lemma update_economic_fields:
  "updateInterval (update_economic x w) = updateInterval w"
  "timers (update_economic x w) = timers w"
  "nextHandle (update_economic x w) = nextHandle w"
  "clock (update_economic x w) = clock w"
  "trace (update_economic x w) = trace w"
  by (cases x; simp add: update_economic_def dispatch_fields)+

lemma update_cultural_fields:
  "updateInterval (update_cultural x w) = updateInterval w"
  "timers (update_cultural x w) = timers w"
  "nextHandle (update_cultural x w) = nextHandle w"
  "clock (update_cultural x w) = clock w"
  "trace (update_cultural x w) = trace w"
  by (cases x; simp add: update_cultural_def dispatch_fields)+

lemma update_agents_fields:
  assumes "update_agents x w = Returns w'"
  shows "updateInterval w' = updateInterval w"
    "timers w' = timers w"
    "nextHandle w' = nextHandle w"
    "clock w' = clock w"
    "trace w' = trace w"
  using assms
  by (auto simp: update_agents_def dispatch_fields split: settled.splits outcome.splits)

lemma update_status_state:
  "state (update_status x w) =
     (case x of Fulfilled r \<Rightarrow> (state w)\<lparr>status := data r, connected := True\<rparr>
              | Rejected e \<Rightarrow> state w)"
  by (cases x) (simp_all add: update_status_def dispatch_fields)

lemma update_network_state:
  "state (update_network x w) =
     (case x of Fulfilled r \<Rightarrow> (state w)\<lparr>networkData := data r\<rparr> | Rejected e \<Rightarrow> state w)"
  by (cases x) (simp_all add: update_network_def dispatch_fields)

lemma update_economic_state:
  "state (update_economic x w) =
     (case x of Fulfilled r \<Rightarrow> (state w)\<lparr>economicData := data r\<rparr> | Rejected e \<Rightarrow> state w)"
  by (cases x) (simp_all add: update_economic_def dispatch_fields)

lemma update_cultural_state:
  "state (update_cultural x w) =
     (case x of Fulfilled r \<Rightarrow> (state w)\<lparr>culturalData := data r\<rparr> | Rejected e \<Rightarrow> state w)"
  by (cases x) (simp_all add: update_cultural_def dispatch_fields)

lemma update_agents_state:
  "update_agents x w = Returns w' \<Longrightarrow>
     state w' = (case x of
                   Fulfilled r \<Rightarrow>
                     (state w)\<lparr>agents := (case getProp (data r) ''agents'' of
                                            Returns v \<Rightarrow> js_or v (JArr []) | Throws e \<Rightarrow> JUndefined)\<rparr>
                 | Rejected e \<Rightarrow> state w)"
  by (auto simp: update_agents_def dispatch_fields split: settled.splits outcome.splits)

lemma update_agents_throws:
  "update_agents x w = Throws e \<longleftrightarrow> (\<exists>r. x = Fulfilled r \<and> getProp (data r) ''agents'' = Throws e)"
  by (auto simp: update_agents_def split: settled.splits outcome.splits)

lemma update_agents_cong:
  "state w1 = state w2 \<Longrightarrow>
     (case update_agents x w1 of
        Throws e \<Rightarrow> update_agents x w2 = Throws e
      | Returns w1' \<Rightarrow> (\<exists>w2'. update_agents x w2 = Returns w2' \<and> state w1' = state w2'))"
  by (auto simp: update_agents_def dispatch_fields split: settled.splits outcome.splits)

lemma refreshData_settle_returns:
  "update_agents (rs Agents) (update_status (rs Status) w) = Returns w' \<Longrightarrow>
     refreshData_settle rs w =
       (update_cultural (rs Culture) (update_economic (rs Economy) (update_network (rs Network) w')),
        Returns ())"
  by (simp add: refreshData_settle_def refreshData_try_def)

lemma refreshData_settle_throws:
  "update_agents (rs Agents) (update_status (rs Status) w) = Throws e \<Longrightarrow>
     refreshData_settle rs w =
       (dispatch (SET_CONNECTED False)
          (dispatch (SET_ERROR (JStr (message e))) (update_status (rs Status) w)),
        Returns ())"
  by (simp add: refreshData_settle_def refreshData_try_def)

lemma refreshData_settle_completes: "snd (refreshData_settle rs w) = Returns ()"
  by (cases "update_agents (rs Agents) (update_status (rs Status) w)")
     (simp_all add: refreshData_settle_returns refreshData_settle_throws)

lemma settle_state_cong:
  assumes "state w1 = state w2"
  shows "state (fst (refreshData_settle rs w1)) = state (fst (refreshData_settle rs w2))"
proof -
  let ?a1 = "update_status (rs Status) w1" and ?a2 = "update_status (rs Status) w2"
  have s: "state ?a1 = state ?a2"
    using assms by (simp add: update_status_state split: settled.splits)
  show ?thesis
  proof (cases "update_agents (rs Agents) ?a1")
    case (Returns w1')
    with update_agents_cong [OF s, of "rs Agents"]
    obtain w2' where r2: "update_agents (rs Agents) ?a2 = Returns w2'" and eq: "state w1' = state w2'"
      by auto
    show ?thesis
      using eq
      by (simp add: refreshData_settle_returns [OF Returns] refreshData_settle_returns [OF r2]
            update_cultural_state update_economic_state update_network_state
            split: settled.splits)
  next
    case (Throws e)
    with update_agents_cong [OF s, of "rs Agents"]
    have t2: "update_agents (rs Agents) ?a2 = Throws e"
      by auto
    show ?thesis
      using s
      by (simp add: refreshData_settle_throws [OF Throws] refreshData_settle_throws [OF t2]
            dispatch_fields)
  qed
qed

lemma settle_fields:
  "updateInterval (fst (refreshData_settle rs w)) = updateInterval w"
  "timers (fst (refreshData_settle rs w)) = timers w"
  "nextHandle (fst (refreshData_settle rs w)) = nextHandle w"
  "clock (fst (refreshData_settle rs w)) = clock w"
  "trace (fst (refreshData_settle rs w)) = trace w"
  by (cases "update_agents (rs Agents) (update_status (rs Status) w)";
      simp add: refreshData_settle_returns refreshData_settle_throws
        update_cultural_fields update_economic_fields update_network_fields update_status_fields
        update_agents_fields dispatch_fields)+

lemma getProp_throws: "(\<exists>e. getProp v k = Throws e) \<longleftrightarrow> v = JNull \<or> v = JUndefined"
  by (cases v) simp_all

lemma update_agents_throws_iff:
  "(\<exists>e. update_agents (rs Agents) w = Throws e) \<longleftrightarrow> throwsOnAgents rs"
  using getProp_throws [of "data r" "''agents''" for r]
  by (auto simp: update_agents_throws throwsOnAgents_def split: settled.splits)

lemma slot_after_throw:
  assumes "update_agents (rs Agents) (update_status (rs Status) w) = Throws e"
  shows "state (fst (refreshData_settle rs w)) =
           (state (update_status (rs Status) w))\<lparr>error := JStr (message e), connected := False\<rparr>"
  by (simp add: refreshData_settle_throws [OF assms] dispatch_fields)

lemma rejected_slot_kept:
  assumes "rs i = Rejected e"
  shows "slot i (state (fst (refreshData_settle rs w))) = slot i (state w)"
proof (cases "update_agents (rs Agents) (update_status (rs Status) w)")
  case (Returns w')
  show ?thesis
    using assms update_agents_state [OF Returns]
    by (cases i)
       (simp_all add: slot_def refreshData_settle_returns [OF Returns] update_cultural_state
          update_economic_state update_network_state update_status_state split: settled.splits)
next
  case (Throws e')
  then have "rs Agents \<noteq> Rejected e" 
    by (auto simp: update_agents_throws)
  then show ?thesis
    using assms
    by (cases i)
       (simp_all add: slot_def slot_after_throw [OF Throws] update_status_state
          split: settled.splits)
qed

lemma fulfilled_slot_committed:
  assumes "rs j = Fulfilled r" and "payload j r = Returns v"
    and "j = Network \<or> j = Economy \<or> j = Culture \<longrightarrow> \<not> throwsOnAgents rs"
  shows "slot j (state (fst (refreshData_settle rs w))) = v"
proof (cases "update_agents (rs Agents) (update_status (rs Status) w)")
  case (Returns w')
  show ?thesis
    using assms(1,2) update_agents_state [OF Returns]
    by (cases j)
       (simp_all add: slot_def payload_def refreshData_settle_returns [OF Returns]
          update_cultural_state update_economic_state update_network_state update_status_state
          split: settled.splits outcome.splits)
next
  case (Throws e')
  then have t: "throwsOnAgents rs" 
    using update_agents_throws_iff by blast
  have "rs Agents = Fulfilled r \<Longrightarrow> payload Agents r = Returns v \<Longrightarrow> False"
    using Throws by (auto simp: update_agents_throws payload_def)
  then show ?thesis
    using assms t
    by (cases j)
       (auto simp: slot_def payload_def slot_after_throw [OF Throws] update_status_state
          split: settled.splits)
qed

lemma agents_committed:
  assumes "rs Agents = Fulfilled r" and "getProp (data r) ''agents'' = Returns v"
  shows "agents (state (fst (refreshData_settle rs w))) = js_or v (JArr [])"
  using fulfilled_slot_committed [of rs Agents r "js_or v (JArr [])" w] assms
  by (simp add: payload_def slot_def)

subsection \<open>What each part of a command changes\<close>

lemma refreshData_begin_fields:
  "updateInterval (refreshData_begin w) = updateInterval w"
  "timers (refreshData_begin w) = timers w"
  "nextHandle (refreshData_begin w) = nextHandle w"
  "clock (refreshData_begin w) = clock w"
  "trace (refreshData_begin w) =
     trace w @ map (\<lambda>s. (clock w, Get (url s))) [Status, Agents, Network, Economy, Culture]"
  "state (refreshData_begin w) = (state w)\<lparr>error := JNull\<rparr>"
  by (simp_all add: refreshData_begin_def Let_def dispatch_fields emit_fields)

lemma command_catch_fields:
  "updateInterval (fst (command_catch fb e w)) = updateInterval w"
  "timers (fst (command_catch fb e w)) = timers w"
  "nextHandle (fst (command_catch fb e w)) = nextHandle w"
  "clock (fst (command_catch fb e w)) = clock w"
  "trace (fst (command_catch fb e w)) =
     trace w @ [(clock w, ToastError (js_or (responseDetail e) (js_or (JStr (message e)) (JStr fb))))]"
  "snd (command_catch fb e w) = Returns False"
  by (simp_all add: command_catch_def Let_def dispatch_fields emit_fields)

lemma command_refreshed_fields:
  "updateInterval (fst (command_refreshed fb rs w)) = updateInterval w"
  "timers (fst (command_refreshed fb rs w)) = timers w"
  "nextHandle (fst (command_refreshed fb rs w)) = nextHandle w"
  "clock (fst (command_refreshed fb rs w)) = clock w"
  "trace (fst (command_refreshed fb rs w)) = trace w"
  "snd (command_refreshed fb rs w) = Returns True"
  using refreshData_settle_completes [of rs w] settle_fields [of rs w]
  by (cases "refreshData_settle rs w"; simp add: command_refreshed_def dispatch_fields)+

lemma controlSimulation_begin_fields:
  "updateInterval (controlSimulation_begin a w) = updateInterval w"
  "timers (controlSimulation_begin a w) = timers w"
  "nextHandle (controlSimulation_begin a w) = nextHandle w"
  "clock (controlSimulation_begin a w) = clock w"
  "trace (controlSimulation_begin a w) =
     trace w @ [(clock w, Post ''/simulation/control'' (JObj [(''action'', JStr a)]))]"
  "state (controlSimulation_begin a w) = (state w)\<lparr>loading := True, error := JNull\<rparr>"
  by (simp_all add: controlSimulation_begin_def Let_def dispatch_fields emit_fields)

lemma initializeSimulation_begin_fields:
  "updateInterval (initializeSimulation_begin c w) = updateInterval w"
  "timers (initializeSimulation_begin c w) = timers w"
  "nextHandle (initializeSimulation_begin c w) = nextHandle w"
  "clock (initializeSimulation_begin c w) = clock w"
  "trace (initializeSimulation_begin c w) = trace w @ [(clock w, Post ''/simulation/initialize'' c)]"
  "state (initializeSimulation_begin c w) = (state w)\<lparr>loading := True, error := JNull\<rparr>"
  by (simp_all add: initializeSimulation_begin_def Let_def dispatch_fields emit_fields)

text \<open>The ways a POST can have settled, as the functions tell them apart.\<close>

lemma controlSimulation_posted_accepted:
  assumes "post = Fulfilled r" and "getProp (data r) ''status'' = Returns v" and "truthy v"
  shows "controlSimulation_posted a post w =
           (refreshData_begin (emit (ToastSuccess (''Simulation '' @ a @ '' successful'')) w), None)"
  using assms by (simp add: controlSimulation_posted_def)

lemma controlSimulation_posted_refused:
  assumes "post = Fulfilled r" and "getProp (data r) ''status'' = Returns v" and "\<not> truthy v"
  shows "controlSimulation_posted a post w =
           (fst (command_catch (''Failed to '' @ a @ '' simulation'')
                   (JsError (''Failed to '' @ a @ '' simulation'') None) w), Some (Returns False))"
  using assms by (simp add: controlSimulation_posted_def Let_def case_prod_beta command_catch_fields)

lemma controlSimulation_posted_unreadable:
  assumes "post = Fulfilled r" and "getProp (data r) ''status'' = Throws e"
  shows "controlSimulation_posted a post w =
           (fst (command_catch (''Failed to '' @ a @ '' simulation'') e w), Some (Returns False))"
  using assms by (simp add: controlSimulation_posted_def Let_def case_prod_beta command_catch_fields)

lemma controlSimulation_posted_rejected:
  assumes "post = Rejected e"
  shows "controlSimulation_posted a post w =
           (fst (command_catch (''Failed to '' @ a @ '' simulation'') e w), Some (Returns False))"
  using assms by (simp add: controlSimulation_posted_def Let_def case_prod_beta command_catch_fields)

lemma initializeSimulation_posted_accepted:
  assumes "post = Fulfilled r" and "getProp (data r) ''status'' = Returns (JStr ''initialized'')"
  shows "initializeSimulation_posted post w =
           (refreshData_begin (emit (ToastSuccess ''Simulation initialized successfully'') w), None)"
  using assms by (simp add: initializeSimulation_posted_def)

lemma initializeSimulation_posted_refused:
  assumes "post = Fulfilled r" and "getProp (data r) ''status'' = Returns v"
    and "v \<noteq> JStr ''initialized''"
  shows "initializeSimulation_posted post w =
           (fst (command_catch ''Failed to initialize simulation''
                   (JsError ''Failed to initialize simulation'' None) w), Some (Returns False))"
  using assms by (simp add: initializeSimulation_posted_def Let_def case_prod_beta command_catch_fields)

lemma initializeSimulation_posted_unreadable:
  assumes "post = Fulfilled r" and "getProp (data r) ''status'' = Throws e"
  shows "initializeSimulation_posted post w =
           (fst (command_catch ''Failed to initialize simulation'' e w), Some (Returns False))"
  using assms by (simp add: initializeSimulation_posted_def Let_def case_prod_beta command_catch_fields)

lemma initializeSimulation_posted_rejected:
  assumes "post = Rejected e"
  shows "initializeSimulation_posted post w =
           (fst (command_catch ''Failed to initialize simulation'' e w), Some (Returns False))"
  using assms by (simp add: initializeSimulation_posted_def Let_def case_prod_beta command_catch_fields)

lemma settled_cases:
  obtains (accepted) r v where "post = Fulfilled r" "getProp (data r) ''status'' = Returns v"
  | (unreadable) r e where "post = Fulfilled r" "getProp (data r) ''status'' = Throws e"
  | (rejected) e where "post = Rejected e"
proof (cases post)
  case (Fulfilled r)
  then show ?thesis
    by (cases "getProp (data r) ''status''") (auto intro: accepted unreadable)
next
  case (Rejected e)
  then show ?thesis by (rule rejected)
qed


lemma posted_posts:
  "posts (fst (controlSimulation_posted a post w)) = posts w"
  "posts (fst (initializeSimulation_posted post w)) = posts w"
proof -
  show "posts (fst (controlSimulation_posted a post w)) = posts w"
  proof (cases post rule: settled_cases)
    case (accepted r v)
    then show ?thesis
      by (cases "truthy v")
         (simp_all add: controlSimulation_posted_accepted controlSimulation_posted_refused
            refreshData_begin_fields emit_fields command_catch_fields posts_def)
  qed (simp_all add: controlSimulation_posted_unreadable controlSimulation_posted_rejected
         command_catch_fields posts_def)
  show "posts (fst (initializeSimulation_posted post w)) = posts w"
  proof (cases post rule: settled_cases)
    case (accepted r v)
    then show ?thesis
      by (cases "v = JStr ''initialized''")
         (simp_all add: initializeSimulation_posted_accepted initializeSimulation_posted_refused
            refreshData_begin_fields emit_fields command_catch_fields posts_def)
  qed (simp_all add: initializeSimulation_posted_unreadable initializeSimulation_posted_rejected
         command_catch_fields posts_def)
qed





text \<open>A whole call of controlSimulation, by how its POST settled.\<close>

lemma controlSimulation_accepted:
  assumes "post = Fulfilled r" and "getProp (data r) ''status'' = Returns v" and "truthy v"
  shows "snd (controlSimulation a post rs w) = Returns True"
    and "trace (fst (controlSimulation a post rs w)) =
           trace w @ [(clock w, Post ''/simulation/control'' (JObj [(''action'', JStr a)])),
                      (clock w, ToastSuccess (''Simulation '' @ a @ '' successful'')),
                      (clock w, Get ''/realtime/status''), (clock w, Get ''/agents''),
                      (clock w, Get ''/realtime/network''), (clock w, Get ''/realtime/economy''),
                      (clock w, Get ''/realtime/culture'')]"
    and "timers (fst (controlSimulation a post rs w)) = timers w"
  by (simp_all add: controlSimulation_def controlSimulation_posted_accepted [OF assms]
        controlSimulation_refreshed_def command_refreshed_fields refreshData_begin_fields
        emit_fields controlSimulation_begin_fields url_def)

lemma controlSimulation_failed:
  assumes "controlSimulation_posted a post (controlSimulation_begin a w) =
             (fst (command_catch fb e (controlSimulation_begin a w)), Some (Returns False))"
  shows "snd (controlSimulation a post rs w) = Returns False"
    and "trace (fst (controlSimulation a post rs w)) =
           trace w @ [(clock w, Post ''/simulation/control'' (JObj [(''action'', JStr a)])),
                      (clock w, ToastError (js_or (responseDetail e) (js_or (JStr (message e)) (JStr fb))))]"
    and "timers (fst (controlSimulation a post rs w)) = timers w"
  by (simp_all add: controlSimulation_def assms command_catch_fields controlSimulation_begin_fields)

lemma initializeSimulation_accepted:
  assumes "post = Fulfilled r" and "getProp (data r) ''status'' = Returns (JStr ''initialized'')"
  shows "snd (initializeSimulation c post rs w) = Returns True"
    and "trace (fst (initializeSimulation c post rs w)) =
           trace w @ [(clock w, Post ''/simulation/initialize'' c),
                      (clock w, ToastSuccess ''Simulation initialized successfully''),
                      (clock w, Get ''/realtime/status''), (clock w, Get ''/agents''),
                      (clock w, Get ''/realtime/network''), (clock w, Get ''/realtime/economy''),
                      (clock w, Get ''/realtime/culture'')]"
    and "timers (fst (initializeSimulation c post rs w)) = timers w"
  by (simp_all add: initializeSimulation_def initializeSimulation_posted_accepted [OF assms]
        initializeSimulation_refreshed_def command_refreshed_fields refreshData_begin_fields
        emit_fields initializeSimulation_begin_fields url_def)

lemma initializeSimulation_failed:
  assumes "initializeSimulation_posted post (initializeSimulation_begin c w) =
             (fst (command_catch fb e (initializeSimulation_begin c w)), Some (Returns False))"
  shows "snd (initializeSimulation c post rs w) = Returns False"
    and "trace (fst (initializeSimulation c post rs w)) =
           trace w @ [(clock w, Post ''/simulation/initialize'' c),
                      (clock w, ToastError (js_or (responseDetail e) (js_or (JStr (message e)) (JStr fb))))]"
    and "timers (fst (initializeSimulation c post rs w)) = timers w"
  by (simp_all add: initializeSimulation_def assms command_catch_fields
        initializeSimulation_begin_fields)










text \<open>What a call answers, by how its POST settled and by nothing else.\<close>

lemma controlSimulation_posted_result:
  "snd (controlSimulation_posted a post w) =
     (if (\<exists>r v. post = Fulfilled r \<and> getProp (data r) ''status'' = Returns v \<and> truthy v)
      then None else Some (Returns False))"
proof (cases post rule: settled_cases)
  case (accepted r v)
  then show ?thesis
    by (cases "truthy v")
       (simp_all add: controlSimulation_posted_accepted controlSimulation_posted_refused)
qed (simp_all add: controlSimulation_posted_unreadable controlSimulation_posted_rejected)

lemma initializeSimulation_posted_result:
  "snd (initializeSimulation_posted post w) =
     (if (\<exists>r. post = Fulfilled r \<and> getProp (data r) ''status'' = Returns (JStr ''initialized''))
      then None else Some (Returns False))"
proof (cases post rule: settled_cases)
  case (accepted r v)
  then show ?thesis
    by (cases "v = JStr ''initialized''")
       (simp_all add: initializeSimulation_posted_accepted initializeSimulation_posted_refused)
qed (simp_all add: initializeSimulation_posted_unreadable initializeSimulation_posted_rejected)

lemma controlSimulation_result:
  "snd (controlSimulation a post rs w) =
     Returns (\<exists>r v. post = Fulfilled r \<and> getProp (data r) ''status'' = Returns v \<and> truthy v)"
proof (cases post rule: settled_cases)
  case (accepted r v)
  show ?thesis
  proof (cases "truthy v")
    case True
    show ?thesis
      using accepted True controlSimulation_accepted(1) [OF accepted True, of a rs w] by simp
  next
    case False
    show ?thesis
      using accepted False
        controlSimulation_failed(1) [OF controlSimulation_posted_refused [OF accepted False]]
      by simp
  qed
next
  case (unreadable r e)
  show ?thesis
    using unreadable
      controlSimulation_failed(1) [OF controlSimulation_posted_unreadable [OF unreadable]]
    by simp
next
  case (rejected e)
  show ?thesis
    using rejected controlSimulation_failed(1) [OF controlSimulation_posted_rejected [OF rejected]]
    by simp
qed

lemma initializeSimulation_result:
  "snd (initializeSimulation c post rs w) =
     Returns (\<exists>r. post = Fulfilled r \<and> getProp (data r) ''status'' = Returns (JStr ''initialized''))"
proof (cases post rule: settled_cases)
  case (accepted r v)
  show ?thesis
  proof (cases "v = JStr ''initialized''")
    case True
    show ?thesis
      using accepted True
        initializeSimulation_accepted(1) [OF accepted(1) accepted(2) [unfolded True], of c rs w]
      by simp
  next
    case False
    show ?thesis
      using accepted False
        initializeSimulation_failed(1) [OF initializeSimulation_posted_refused [OF accepted False]]
      by simp
  qed
next
  case (unreadable r e)
  show ?thesis
    using unreadable
      initializeSimulation_failed(1) [OF initializeSimulation_posted_unreadable [OF unreadable]]
    by simp
next
  case (rejected e)
  show ?thesis
    using rejected
      initializeSimulation_failed(1) [OF initializeSimulation_posted_rejected [OF rejected]]
    by simp
qed

lemma controlSimulation_posts:
  "posts (fst (controlSimulation a post rs w)) =
     posts w @ [Post ''/simulation/control'' (JObj [(''action'', JStr a)])]"
proof -
  have "posts (fst (controlSimulation a post rs w)) = posts (controlSimulation_begin a w)"
  proof (cases "controlSimulation_posted a post (controlSimulation_begin a w)")
    case (Pair w' res)
    have p: "posts w' = posts (controlSimulation_begin a w)"
      using posted_posts(1) [of a post "controlSimulation_begin a w"] Pair by simp
    show ?thesis
      using Pair p
      by (cases res)
         (simp_all add: controlSimulation_def controlSimulation_refreshed_def posts_def
            command_refreshed_fields)
  qed
  then show ?thesis
    by (simp add: posts_def controlSimulation_begin_fields)
qed

lemma initializeSimulation_posts:
  "posts (fst (initializeSimulation c post rs w)) =
     posts w @ [Post ''/simulation/initialize'' c]"
proof -
  have "posts (fst (initializeSimulation c post rs w)) = posts (initializeSimulation_begin c w)"
  proof (cases "initializeSimulation_posted post (initializeSimulation_begin c w)")
    case (Pair w' res)
    have p: "posts w' = posts (initializeSimulation_begin c w)"
      using posted_posts(2) [of post "initializeSimulation_begin c w"] Pair by simp
    show ?thesis
      using Pair p
      by (cases res)
         (simp_all add: initializeSimulation_def initializeSimulation_refreshed_def posts_def
            command_refreshed_fields)
  qed
  then show ?thesis
    by (simp add: posts_def initializeSimulation_begin_fields)
qed


text \<open>
  In a cycle in which the fetch of source \<open>i\<close> fails, \<^verbatim>\<open>refreshData\<close> returns
  normally and the slot of \<open>i\<close> keeps its value; the result of another source that
  was fulfilled is in its slot afterwards, for the network, economy and culture
  sources provided the read of the agents body did not throw.
\<close>

lemma fetch_failure_isolated:
  assumes "rs i = Rejected e"
  shows "snd (refreshData_settle rs w) = Returns ()
       \<and> slot i (state (fst (refreshData_settle rs w))) = slot i (state w)
       \<and> (\<forall>j r v. j \<noteq> i \<and> rs j = Fulfilled r \<and> payload j r = Returns v
                  \<and> (j = Network \<or> j = Economy \<or> j = Culture \<longrightarrow> \<not> throwsOnAgents rs)
              \<longrightarrow> slot j (state (fst (refreshData_settle rs w))) = v)"
  using assms refreshData_settle_completes [of rs w] rejected_slot_kept [of rs i e w]
    fulfilled_slot_committed [of rs _ _ _ w]
  by blast

text \<open>
  Status and agents succeed, the network read fails: status and agents are committed,
  the network slot keeps its initial \<^verbatim>\<open>null\<close>.
\<close>

lemma fetch_failure_isolated_scenario:
  "((allFulfilled (JObj [(''state'', JStr ''running'')]))
       (Network := Rejected (JsError ''timeout of 10000ms exceeded'' None))) Network
     = Rejected (JsError ''timeout of 10000ms exceeded'' None)
   \<and> \<not> throwsOnAgents ((allFulfilled (JObj [(''state'', JStr ''running'')]))
       (Network := Rejected (JsError ''timeout of 10000ms exceeded'' None)))
   \<and> snd (refreshData_settle
       ((allFulfilled (JObj [(''state'', JStr ''running'')]))
          (Network := Rejected (JsError ''timeout of 10000ms exceeded'' None)))
       (refreshData_begin world0)) = Returns ()
   \<and> status (state (fst (refreshData_settle
       ((allFulfilled (JObj [(''state'', JStr ''running'')]))
          (Network := Rejected (JsError ''timeout of 10000ms exceeded'' None)))
       (refreshData_begin world0)))) = JObj [(''state'', JStr ''running'')]
   \<and> agents (state (fst (refreshData_settle
       ((allFulfilled (JObj [(''state'', JStr ''running'')]))
          (Network := Rejected (JsError ''timeout of 10000ms exceeded'' None)))
       (refreshData_begin world0)))) = JArr []
   \<and> networkData (state (fst (refreshData_settle
       ((allFulfilled (JObj [(''state'', JStr ''running'')]))
          (Network := Rejected (JsError ''timeout of 10000ms exceeded'' None)))
       (refreshData_begin world0)))) = JNull
   \<and> economicData (state (fst (refreshData_settle
       ((allFulfilled (JObj [(''state'', JStr ''running'')]))
          (Network := Rejected (JsError ''timeout of 10000ms exceeded'' None)))
       (refreshData_begin world0)))) = JObj [(''state'', JStr ''running'')]"
proof -
  let ?body = "JObj [(''state'', JStr ''running'')]"
  let ?rs = "(allFulfilled ?body)(Network := Rejected (JsError ''timeout of 10000ms exceeded'' None))"
  let ?w = "fst (refreshData_settle ?rs (refreshData_begin world0))"
  have r: "?rs Network = Rejected (JsError ''timeout of 10000ms exceeded'' None)"
    by simp
  have a: "\<not> throwsOnAgents ?rs"
    by (simp add: throwsOnAgents_def allFulfilled_def)
  have n: "networkData (state (refreshData_begin world0)) = JNull"
    by (simp add: refreshData_begin_fields world0_def initialState_def)
  note t = fetch_failure_isolated [of ?rs Network "JsError ''timeout of 10000ms exceeded'' None"
      "refreshData_begin world0", OF r]
  note others = t [THEN conjunct2, THEN conjunct2, rule_format]
  have st: "slot Status (state ?w) = ?body"
    using others [of Status "Response ?body" ?body]
    by (simp add: allFulfilled_def payload_def)
  have ag: "slot Agents (state ?w) = JArr []"
    using others [of Agents "Response ?body" "JArr []"]
    by (simp add: allFulfilled_def payload_def js_or_def)
  have ec: "slot Economy (state ?w) = ?body"
    using a others [of Economy "Response ?body" ?body]
    by (simp add: allFulfilled_def payload_def)
  show ?thesis
    using r a t st ag ec n by (simp add: slot_def)
qed

subsection \<open>The interval timer\<close>

lemma stop_unsets: "updateInterval (fst (stopRealTimeUpdates (Some h) w)) = None"
  by (simp add: stopRealTimeUpdates_def Let_def)

text \<open>
  A start that sees a handle and a stop that sees none change nothing, and neither
  function ever throws.
\<close>

lemma lifecycle_misuse_absorbed_when_seen:
  "startRealTimeUpdates (Some h) w = (w, Returns ())
   \<and> stopRealTimeUpdates None w = (w, Returns ())
   \<and> snd (startRealTimeUpdates seen w) = Returns ()
   \<and> snd (stopRealTimeUpdates seen w) = Returns ()"
  by (simp add: startRealTimeUpdates_def stopRealTimeUpdates_def Let_def split: option.splits)

lemma stop_state: "state (fst (stopRealTimeUpdates seen w)) = state w"
  by (simp add: stopRealTimeUpdates_def Let_def split: option.splits)

lemma stop_trace: "trace (fst (stopRealTimeUpdates seen w)) = trace w"
  by (simp add: stopRealTimeUpdates_def Let_def split: option.splits)

lemma map_of_filter_out: "map_of (filter (\<lambda>(h', t). h' \<noteq> h) xs) h = None"
  by (induction xs) auto

lemma stop_clears: "map_of (timers (fst (stopRealTimeUpdates (Some h) w))) h = None"
  by (simp add: stopRealTimeUpdates_def Let_def map_of_filter_out)

lemma timerFires_dead: "map_of (timers w) h = None \<Longrightarrow> timerFires h w = w"
  by (simp add: timerFires_def)

lemma stop_unseen: "fst (stopRealTimeUpdates None w) = w"
  by (simp add: stopRealTimeUpdates_def)

lemma stop_fields:
  "clock (fst (stopRealTimeUpdates seen w)) = clock w"
  "nextHandle (fst (stopRealTimeUpdates seen w)) = nextHandle w"
  "snd (stopRealTimeUpdates seen w) = Returns ()"
  by (simp_all add: stopRealTimeUpdates_def Let_def split: option.splits)

lemma stop_timers:
  "timers (fst (stopRealTimeUpdates (Some h) w)) = filter (\<lambda>(h', t). h' \<noteq> h) (timers w)"
  by (simp add: stopRealTimeUpdates_def Let_def)





lemma stoppedInFlight_fields:
  "updateInterval stoppedInFlight = None"
  "timers stoppedInFlight = []"
  "state stoppedInFlight = initialState"
  "trace stoppedInFlight =
     [(2000, Get ''/realtime/status''), (2000, Get ''/agents''), (2000, Get ''/realtime/network''),
      (2000, Get ''/realtime/economy''), (2000, Get ''/realtime/culture'')]"
  by (simp_all add: stoppedInFlight_def stopRealTimeUpdates_def timerFires_def
        startRealTimeUpdates_def world0_def elapse_def intervalMs_def refreshData_begin_fields
        Let_def initialState_def url_def)

section \<open>The reducer\<close>

text \<open>
  C9, as amended. The reducer never mutates the object it is given: every object of the
  store, its argument among them, is afterwards what it was. The state it returns is
  the reduction of its argument, in which no field differs from the argument's but the
  one the action's type targets, and none at all for \<^verbatim>\<open>UPDATE_REALTIME_DATA\<close> or an
  unrecognised type. For each of the nine recognised types the returned object is a new
  one; for an unrecognised type it is the argument itself and nothing is allocated.
\<close>

theorem reducer_frame:
  assumes "r < length h"
  shows "(\<forall>i < length h. fst (simulationReducer_obj h r a) ! i = h ! i)
       \<and> fst (simulationReducer_obj h r a) ! snd (simulationReducer_obj h r a) = simulationReducer (h ! r) a
       \<and> ((\<forall>p. a \<noteq> SET_LOADING p) \<longrightarrow> loading (simulationReducer (h ! r) a) = loading (h ! r))
       \<and> ((\<forall>p. a \<noteq> SET_ERROR p) \<longrightarrow> error (simulationReducer (h ! r) a) = error (h ! r))
       \<and> ((\<forall>p. a \<noteq> SET_CONNECTED p) \<longrightarrow> connected (simulationReducer (h ! r) a) = connected (h ! r))
       \<and> ((\<forall>p. a \<noteq> SET_STATUS p) \<longrightarrow> status (simulationReducer (h ! r) a) = status (h ! r))
       \<and> ((\<forall>p. a \<noteq> SET_AGENTS p) \<longrightarrow> agents (simulationReducer (h ! r) a) = agents (h ! r))
       \<and> ((\<forall>p. a \<noteq> SET_NETWORK_DATA p) \<longrightarrow> networkData (simulationReducer (h ! r) a) = networkData (h ! r))
       \<and> ((\<forall>p. a \<noteq> SET_ECONOMIC_DATA p) \<longrightarrow> economicData (simulationReducer (h ! r) a) = economicData (h ! r))
       \<and> ((\<forall>p. a \<noteq> SET_CULTURAL_DATA p) \<longrightarrow> culturalData (simulationReducer (h ! r) a) = culturalData (h ! r))
       \<and> (a = UPDATE_REALTIME_DATA \<or> (\<exists>t. a = OTHER_ACTION t) \<longrightarrow> simulationReducer (h ! r) a = h ! r)
       \<and> ((\<exists>t. a = OTHER_ACTION t) \<longrightarrow> simulationReducer_obj h r a = (h, r))
       \<and> ((\<forall>t. a \<noteq> OTHER_ACTION t) \<longrightarrow>
             snd (simulationReducer_obj h r a) = length h
           \<and> length (fst (simulationReducer_obj h r a)) = Suc (length h))"
proof -
  have keeps: "\<forall>i < length h. fst (simulationReducer_obj h r a) ! i = h ! i"
    by (simp add: reducer_obj_keeps)
  note parts = keeps reducer_obj_value [OF assms, of a] reducer_frame_fields [of a "h ! r"]
    reducer_same [of a "h ! r"] reducer_obj_other [of a h r] reducer_obj_fresh [of a h r]
  show ?thesis
    by (intro conjI) (rule parts)+
qed

text \<open>
  \<^verbatim>\<open>SET_CONNECTED\<close> on the initial state: the initial object is still at its
  reference, the result is a second object, and its status is untouched.
\<close>

theorem reducer_frame_witness:
  "(0::nat) < length [initialState]
   \<and> fst (simulationReducer_obj [initialState] 0 (SET_CONNECTED True)) ! 0 = initialState
   \<and> snd (simulationReducer_obj [initialState] 0 (SET_CONNECTED True)) = 1
   \<and> fst (simulationReducer_obj [initialState] 0 (SET_CONNECTED True)) ! 1
       = initialState\<lparr>connected := True\<rparr>
   \<and> status (simulationReducer ([initialState] ! 0) (SET_CONNECTED True)) = JNull"
proof -
  have r: "(0::nat) < length [initialState]"
    by simp
  note t = reducer_frame [OF r, of "SET_CONNECTED True"]
  have k: "fst (simulationReducer_obj [initialState] 0 (SET_CONNECTED True)) ! 0 = initialState"
    using t by simp
  have f: "snd (simulationReducer_obj [initialState] 0 (SET_CONNECTED True)) = 1"
    using t by simp
  have v: "fst (simulationReducer_obj [initialState] 0 (SET_CONNECTED True)) ! 1
             = initialState\<lparr>connected := True\<rparr>"
    using t f by (simp add: alloc_def)
  have s: "status (simulationReducer ([initialState] ! 0) (SET_CONNECTED True)) = JNull"
    using t by (simp add: initialState_def)
  show ?thesis using r k f v s by blast
qed

text \<open>
  C9 as stated has the reducer return a new state object for every action. For an
  unrecognised action type the \<^verbatim>\<open>default\<close> branch returns the reference it was
  given: no new object.
\<close>

theorem reducer_default_returns_its_argument:
  "snd (simulationReducer_obj [initialState] 0 (OTHER_ACTION ''RESET'')) = 0
   \<and> fst (simulationReducer_obj [initialState] 0 (OTHER_ACTION ''RESET'')) = [initialState]"
  by simp

text \<open>
  C1, as amended. The reducer keeps no cycle id and rejects nothing: a result applied
  after another for the same slot replaces it, whichever cycle either came from, and
  the state is what it would be had the earlier one never been committed.
\<close>

theorem reducer_last_write_wins:
  "simulationReducer (simulationReducer s (SET_STATUS p2)) (SET_STATUS p1) = simulationReducer s (SET_STATUS p1)
   \<and> simulationReducer (simulationReducer s (SET_AGENTS p2)) (SET_AGENTS p1) = simulationReducer s (SET_AGENTS p1)
   \<and> simulationReducer (simulationReducer s (SET_NETWORK_DATA p2)) (SET_NETWORK_DATA p1) = simulationReducer s (SET_NETWORK_DATA p1)
   \<and> simulationReducer (simulationReducer s (SET_ECONOMIC_DATA p2)) (SET_ECONOMIC_DATA p1) = simulationReducer s (SET_ECONOMIC_DATA p1)
   \<and> simulationReducer (simulationReducer s (SET_CULTURAL_DATA p2)) (SET_CULTURAL_DATA p1) = simulationReducer s (SET_CULTURAL_DATA p1)
   \<and> status (simulationReducer s (SET_STATUS p1)) = p1
   \<and> agents (simulationReducer s (SET_AGENTS p1)) = p1
   \<and> networkData (simulationReducer s (SET_NETWORK_DATA p1)) = p1
   \<and> economicData (simulationReducer s (SET_ECONOMIC_DATA p1)) = p1
   \<and> culturalData (simulationReducer s (SET_CULTURAL_DATA p1)) = p1"
  by simp

text \<open>
  C1 as stated has a result of an older cycle leave the slot as it is once a newer one
  is committed. Two cycles start one after the other; the second settles first and its
  status is committed; then the first settles, and its older status replaces the
  newer one.
\<close>

theorem stale_result_overwrites_newer:
  "status (state (fst (refreshData_settle (allFulfilled (JObj [(''current_tick'', JNum 2)]))
                        (refreshData_begin (refreshData_begin world0)))))
     = JObj [(''current_tick'', JNum 2)]
   \<and> status (state (fst (refreshData_settle (allFulfilled (JObj [(''current_tick'', JNum 1)]))
            (fst (refreshData_settle (allFulfilled (JObj [(''current_tick'', JNum 2)]))
                        (refreshData_begin (refreshData_begin world0)))))))
     = JObj [(''current_tick'', JNum 1)]"
  by (simp add: allFulfilled_def refreshData_settle_def refreshData_try_def update_status_def
        update_agents_def update_network_def update_economic_def update_cultural_def
        dispatch_def js_or_def)

section \<open>A polling cycle\<close>

text \<open>
  C2. A cycle in which the status fetch fails and the agents read is fulfilled with a
  \<^verbatim>\<open>null\<close> body. The cycle completes, but the read of \<^verbatim>\<open>data.agents\<close> throws,
  the \<^verbatim>\<open>catch\<close> block takes over, and the fulfilled results of the network, economy
  and culture reads are not committed: their slots keep the initial \<^verbatim>\<open>null\<close>.
\<close>

theorem null_agents_body_skips_later_commits:
  "statusFailsAgentsNull Status = Rejected (JsError ''Network Error'' None)
   \<and> statusFailsAgentsNull Network = Fulfilled (Response (JObj [(''nodes'', JArr [])]))
   \<and> snd (refreshData_settle statusFailsAgentsNull (refreshData_begin world0)) = Returns ()
   \<and> networkData (state (fst (refreshData_settle statusFailsAgentsNull (refreshData_begin world0))))
       = JNull
   \<and> economicData (state (fst (refreshData_settle statusFailsAgentsNull (refreshData_begin world0))))
       = JNull
   \<and> culturalData (state (fst (refreshData_settle statusFailsAgentsNull (refreshData_begin world0))))
       = JNull
   \<and> error (state (fst (refreshData_settle statusFailsAgentsNull (refreshData_begin world0))))
       = JStr (message (cannotRead ''null'' ''agents''))"
proof -
  have thrown: "update_agents (statusFailsAgentsNull Agents)
                  (update_status (statusFailsAgentsNull Status) (refreshData_begin world0))
                = Throws (cannotRead ''null'' ''agents'')"
    by (simp add: statusFailsAgentsNull_def update_agents_def)
  have st: "state (update_status (statusFailsAgentsNull Status) (refreshData_begin world0))
              = initialState"
    by (simp add: statusFailsAgentsNull_def update_status_def refreshData_begin_fields world0_def
          initialState_def)
  have after: "state (fst (refreshData_settle statusFailsAgentsNull (refreshData_begin world0)))
      = initialState\<lparr>error := JStr (message (cannotRead ''null'' ''agents'')), connected := False\<rparr>"
    unfolding slot_after_throw [OF thrown] st ..
  have rs: "statusFailsAgentsNull Status = Rejected (JsError ''Network Error'' None)"
    "statusFailsAgentsNull Network = Fulfilled (Response (JObj [(''nodes'', JArr [])]))"
    by (simp_all add: statusFailsAgentsNull_def)
  show ?thesis
    unfolding after
    using rs refreshData_settle_completes [of statusFailsAgentsNull "refreshData_begin world0"]
    by (simp add: initialState_def)
qed

text \<open>
  C3. The connectivity flag after a cycle in which the status fetch fails. A first
  cycle in which everything succeeds sets \<^verbatim>\<open>connected\<close>; in the next every fetch is
  rejected, and \<^verbatim>\<open>connected\<close> is still true: \<^verbatim>\<open>Promise.allSettled\<close> never rejects,
  so the \<^verbatim>\<open>catch\<close> block that dispatches \<^verbatim>\<open>SET_CONNECTED false\<close> is not reached.
\<close>

theorem connected_survives_failed_status_fetch:
  "connected (state (fst (refreshData (allFulfilled (JObj [(''state'', JStr ''running'')])) world0))) = True
   \<and> connected (state (fst (refreshData allRejected
        (fst (refreshData (allFulfilled (JObj [(''state'', JStr ''running'')])) world0))))) = True"
  by (simp add: refreshData_def refreshData_settle_def refreshData_try_def refreshData_begin_def
        update_status_def update_agents_def update_network_def update_economic_def
        update_cultural_def allFulfilled_def allRejected_def dispatch_def emit_def world0_def)

text \<open>
  C10, as amended. When the agents read is fulfilled with a body that is not
  \<^verbatim>\<open>null\<close> or \<^verbatim>\<open>undefined\<close>, the refresh commits the body's \<^verbatim>\<open>agents\<close> field
  if it is truthy and the empty list otherwise: the empty list when the field is
  missing, \<^verbatim>\<open>null\<close> or \<^verbatim>\<open>undefined\<close>, a list whenever the field is a list, and
  never \<^verbatim>\<open>null\<close> or \<^verbatim>\<open>undefined\<close>.
\<close>

theorem agents_slot_default:
  assumes "rs Agents = Fulfilled r" and "getProp (data r) ''agents'' = Returns v"
  shows "agents (state (fst (refreshData_settle rs w))) = (if truthy v then v else JArr [])
       \<and> agents (state (fst (refreshData_settle rs w))) \<noteq> JNull
       \<and> agents (state (fst (refreshData_settle rs w))) \<noteq> JUndefined
       \<and> (isArray v \<or> \<not> truthy v \<longrightarrow> isArray (agents (state (fst (refreshData_settle rs w)))))
       \<and> (\<forall>kvs. data r = JObj kvs
              \<and> (map_of kvs ''agents'' = None \<or> map_of kvs ''agents'' = Some JNull
                 \<or> map_of kvs ''agents'' = Some JUndefined)
            \<longrightarrow> agents (state (fst (refreshData_settle rs w))) = JArr [])"
proof -
  have a: "agents (state (fst (refreshData_settle rs w))) = (if truthy v then v else JArr [])"
    using agents_committed [of rs r v w, OF assms] by (simp add: js_or_def)
  have b: "(if truthy v then v else JArr []) \<noteq> JNull" "(if truthy v then v else JArr []) \<noteq> JUndefined"
    by auto
  have c: "isArray v \<or> \<not> truthy v \<longrightarrow> isArray (if truthy v then v else JArr [])"
    by auto
  have d: "\<forall>kvs. data r = JObj kvs
              \<and> (map_of kvs ''agents'' = None \<or> map_of kvs ''agents'' = Some JNull
                 \<or> map_of kvs ''agents'' = Some JUndefined)
            \<longrightarrow> (if truthy v then v else JArr []) = JArr []"
    using assms(2) by auto
  show ?thesis
    using b c d unfolding a by blast
qed

text \<open>
  A body without an \<^verbatim>\<open>agents\<close> field, after a cycle that had stored one agent:
  the slot is the empty list.
\<close>

theorem agents_slot_default_witness:
  "allFulfilled (JObj [(''count'', JNum 0)]) Agents = Fulfilled (Response (JObj [(''count'', JNum 0)]))
   \<and> getProp (data (Response (JObj [(''count'', JNum 0)]))) ''agents'' = Returns JUndefined
   \<and> agents (state (fst (refreshData_settle (allFulfilled (JObj [(''agents'', JArr [JStr ''a1''])]))
                            world0)))
       = JArr [JStr ''a1'']
   \<and> agents (state (fst (refreshData_settle (allFulfilled (JObj [(''count'', JNum 0)]))
        (fst (refreshData_settle (allFulfilled (JObj [(''agents'', JArr [JStr ''a1''])])) world0)))))
       = JArr []"
proof -
  have g: "getProp (data (Response (JObj [(''count'', JNum 0)]))) ''agents'' = Returns JUndefined"
    by simp
  have f: "allFulfilled (JObj [(''count'', JNum 0)]) Agents
             = Fulfilled (Response (JObj [(''count'', JNum 0)]))"
    by (simp add: allFulfilled_def)
  have g': "getProp (data (Response (JObj [(''agents'', JArr [JStr ''a1''])]))) ''agents''
              = Returns (JArr [JStr ''a1''])"
    by simp
  have f': "allFulfilled (JObj [(''agents'', JArr [JStr ''a1''])]) Agents
              = Fulfilled (Response (JObj [(''agents'', JArr [JStr ''a1''])]))"
    by (simp add: allFulfilled_def)
  have first: "agents (state (fst (refreshData_settle
                 (allFulfilled (JObj [(''agents'', JArr [JStr ''a1''])])) world0)))
               = JArr [JStr ''a1'']"
    using agents_slot_default [of "allFulfilled (JObj [(''agents'', JArr [JStr ''a1''])])"
        "Response (JObj [(''agents'', JArr [JStr ''a1''])])" "JArr [JStr ''a1'']" world0, OF f' g']
    by simp
  have second: "agents (state (fst (refreshData_settle (allFulfilled (JObj [(''count'', JNum 0)]))
        (fst (refreshData_settle (allFulfilled (JObj [(''agents'', JArr [JStr ''a1''])])) world0)))))
       = JArr []"
    using agents_slot_default [of "allFulfilled (JObj [(''count'', JNum 0)])"
        "Response (JObj [(''count'', JNum 0)])" JUndefined, OF f g]
    by simp
  show ?thesis
    using f g first second by blast
qed

text \<open>
  C10 as stated has the slot always a list after a successful agents fetch. A body
  whose \<^verbatim>\<open>agents\<close> field is an object keyed by agent id is stored as it is.
\<close>

theorem agents_slot_holds_a_non_list:
  "\<not> isArray (agents (state (fst (refreshData_settle
      (allFulfilled (JObj [(''agents'', JObj [(''a1'', JObj [(''name'', JStr ''Ada'')])])]))
      world0))))"
proof -
  have "agents (state (fst (refreshData_settle
      (allFulfilled (JObj [(''agents'', JObj [(''a1'', JObj [(''name'', JStr ''Ada'')])])]))
      world0))) = JObj [(''a1'', JObj [(''name'', JStr ''Ada'')])]"
    using agents_committed [of "allFulfilled (JObj [(''agents'', JObj [(''a1'', JObj [(''name'', JStr ''Ada'')])])])"
        "Response (JObj [(''agents'', JObj [(''a1'', JObj [(''name'', JStr ''Ada'')])])])"
        "JObj [(''a1'', JObj [(''name'', JStr ''Ada'')])]" world0]
    by (simp add: allFulfilled_def js_or_def)
  then show ?thesis by simp
qed

section \<open>Starting and stopping the timer\<close>

text \<open>
  C8. A second start while the timer is running, made by the function of the rendering
  that made the first (or of any rendering before the handle was stored). It sees no
  handle, so it makes a second timer and stores the second handle over the first; a
  stop made after the next rendering clears the second timer, and the first stays live
  with its handle lost.
\<close>

theorem second_start_makes_second_timer:
  "timers (fst (startRealTimeUpdates None world0)) = [(1, 2000)]
   \<and> updateInterval (fst (startRealTimeUpdates None world0)) = Some 1
   \<and> timers (fst (startRealTimeUpdates None (fst (startRealTimeUpdates None world0))))
       = [(1, 2000), (2, 2000)]
   \<and> updateInterval (fst (startRealTimeUpdates None (fst (startRealTimeUpdates None world0))))
       = Some 2
   \<and> timers (fst (stopRealTimeUpdates (Some 2)
         (fst (startRealTimeUpdates None (fst (startRealTimeUpdates None world0))))))
       = [(1, 2000)]"
  by (simp add: startRealTimeUpdates_def stopRealTimeUpdates_def world0_def intervalMs_def)

text \<open>
  C5, as amended. \<^verbatim>\<open>stopRealTimeUpdates\<close> never throws. When it sees no handle it
  changes nothing. When it sees the handle \<open>h\<close> it removes exactly the timers with
  that handle, every other timer staying as it was, and clears the stored handle;
  nothing else changes (snapshot, trace, clock, next handle), and the timer \<open>h\<close> starts
  no further cycle. A fetch sent before the stop that settles after it is not discarded:
  the snapshot after its results are committed is what it would have been without the
  stop.
\<close>

theorem stop_only_clears_timer:
  "snd (stopRealTimeUpdates seen w) = Returns ()
   \<and> state (fst (stopRealTimeUpdates seen w)) = state w
   \<and> trace (fst (stopRealTimeUpdates seen w)) = trace w
   \<and> clock (fst (stopRealTimeUpdates seen w)) = clock w
   \<and> nextHandle (fst (stopRealTimeUpdates seen w)) = nextHandle w
   \<and> (seen = None \<longrightarrow> fst (stopRealTimeUpdates seen w) = w)
   \<and> (\<forall>h. seen = Some h \<longrightarrow>
          timers (fst (stopRealTimeUpdates seen w)) = filter (\<lambda>(h', t). h' \<noteq> h) (timers w)
        \<and> updateInterval (fst (stopRealTimeUpdates seen w)) = None
        \<and> timerFires h (fst (stopRealTimeUpdates seen w)) = fst (stopRealTimeUpdates seen w))
   \<and> state (fst (refreshData_settle rs (fst (stopRealTimeUpdates seen w))))
       = state (fst (refreshData_settle rs w))"
proof -
  have n: "seen = None \<longrightarrow> fst (stopRealTimeUpdates seen w) = w"
    using stop_unseen by simp
  have d: "\<forall>h. seen = Some h \<longrightarrow>
          timers (fst (stopRealTimeUpdates seen w)) = filter (\<lambda>(h', t). h' \<noteq> h) (timers w)
        \<and> updateInterval (fst (stopRealTimeUpdates seen w)) = None
        \<and> timerFires h (fst (stopRealTimeUpdates seen w)) = fst (stopRealTimeUpdates seen w)"
    using stop_timers [of _ w] stop_unsets [of _ w] stop_clears [of _ w]
      timerFires_dead [of "fst (stopRealTimeUpdates seen w)"]
    by auto
  note parts = stop_fields(3) [of seen w] stop_state [of seen w] stop_trace [of seen w]
    stop_fields(1,2) [of seen w] n d
    settle_state_cong [of "fst (stopRealTimeUpdates seen w)" w rs, OF stop_state]
  show ?thesis
    by (intro conjI) (rule parts)+
qed

text \<open>
  The timer started, fired once and stopped: the one timer is removed and the handle
  cleared, a further firing of the old timer does nothing, a second stop (which sees no
  handle) changes nothing, and the results of the reads then in flight are committed.
\<close>

theorem stop_only_clears_timer_witness:
  "updateInterval (timerFires 1 (fst (startRealTimeUpdates None world0))) = Some 1
   \<and> timers (timerFires 1 (fst (startRealTimeUpdates None world0))) = [(1, 4000)]
   \<and> timers stoppedInFlight = []
   \<and> updateInterval stoppedInFlight = None
   \<and> timerFires 1 stoppedInFlight = stoppedInFlight
   \<and> fst (stopRealTimeUpdates None stoppedInFlight) = stoppedInFlight
   \<and> status (state (fst (refreshData_settle (allFulfilled (JObj [(''current_tick'', JNum 7)]))
                            stoppedInFlight)))
       = JObj [(''current_tick'', JNum 7)]"
proof -
  let ?w = "timerFires 1 (fst (startRealTimeUpdates None world0))"
  have h: "updateInterval ?w = Some 1"
    by (simp add: timerFires_def startRealTimeUpdates_def world0_def elapse_def
          refreshData_begin_fields Let_def)
  have t: "timers ?w = [(1, 4000)]"
    by (simp add: timerFires_def startRealTimeUpdates_def world0_def elapse_def intervalMs_def
          refreshData_begin_fields Let_def)
  have s: "status (state (fst (refreshData_settle (allFulfilled (JObj [(''current_tick'', JNum 7)])) ?w)))
             = JObj [(''current_tick'', JNum 7)]"
    using fulfilled_slot_committed [of "allFulfilled (JObj [(''current_tick'', JNum 7)])" Status
        "Response (JObj [(''current_tick'', JNum 7)])" "JObj [(''current_tick'', JNum 7)]"]
    by (simp add: allFulfilled_def payload_def slot_def)
  have w: "stoppedInFlight = fst (stopRealTimeUpdates (Some 1) ?w)"
    using h by (simp add: stoppedInFlight_def world0_def)
  show ?thesis
    using h t s stop_only_clears_timer [of "Some 1" ?w "allFulfilled (JObj [(''current_tick'', JNum 7)])"]
      stop_only_clears_timer [of None stoppedInFlight]
    unfolding w by simp
qed

text \<open>
  C5 as stated has no mutation of the snapshot after the stop. The reads in flight at
  the stop settle after it, and the status slot goes from its initial \<^verbatim>\<open>null\<close> to
  the body received.
\<close>

theorem late_result_is_committed_after_stop:
  "updateInterval stoppedInFlight = None
   \<and> status (state stoppedInFlight) = JNull
   \<and> status (state (fst (refreshData_settle (allFulfilled (JObj [(''current_tick'', JNum 7)]))
                            stoppedInFlight)))
       = JObj [(''current_tick'', JNum 7)]"
proof -
  have a: "status (state (fst (refreshData_settle (allFulfilled (JObj [(''current_tick'', JNum 7)]))
                                stoppedInFlight)))
             = JObj [(''current_tick'', JNum 7)]"
    using fulfilled_slot_committed [of "allFulfilled (JObj [(''current_tick'', JNum 7)])" Status
        "Response (JObj [(''current_tick'', JNum 7)])" "JObj [(''current_tick'', JNum 7)]"]
    by (simp add: allFulfilled_def payload_def slot_def)
  show ?thesis
    using a by (simp add: stoppedInFlight_fields initialState_def)
qed




section \<open>Commands\<close>

text \<open>
  C4, as amended. A dispatch is not refused while a Command is pending: nothing in
  \<^verbatim>\<open>controlSimulation\<close> or \<^verbatim>\<open>initializeSimulation\<close> tests for one. In any
  state a call at once sends one POST of its own. What it answers depends only on how
  that POST settles: \<^verbatim>\<open>true\<close> if it is fulfilled with a status that passes the
  function's test, \<^verbatim>\<open>false\<close> otherwise, never a busy error. Over the whole call
  exactly one POST is sent, none once its POST has settled: no call is queued and none
  is retried.
\<close>

theorem every_dispatch_issues_its_own_request:
  "trace (controlSimulation_begin action w) =
     trace w @ [(clock w, Post ''/simulation/control'' (JObj [(''action'', JStr action)]))]
   \<and> snd (controlSimulation_posted action post w) =
       (if (\<exists>r v. post = Fulfilled r \<and> getProp (data r) ''status'' = Returns v \<and> truthy v)
        then None else Some (Returns False))
   \<and> posts (fst (controlSimulation_posted action post w)) = posts w
   \<and> snd (controlSimulation_refreshed action rs w) = Returns True
   \<and> posts (fst (controlSimulation_refreshed action rs w)) = posts w
   \<and> snd (controlSimulation action post rs w) =
       Returns (\<exists>r v. post = Fulfilled r \<and> getProp (data r) ''status'' = Returns v \<and> truthy v)
   \<and> posts (fst (controlSimulation action post rs w)) =
       posts w @ [Post ''/simulation/control'' (JObj [(''action'', JStr action)])]
   \<and> trace (initializeSimulation_begin config w) =
       trace w @ [(clock w, Post ''/simulation/initialize'' config)]
   \<and> snd (initializeSimulation_posted post w) =
       (if (\<exists>r. post = Fulfilled r \<and> getProp (data r) ''status'' = Returns (JStr ''initialized''))
        then None else Some (Returns False))
   \<and> posts (fst (initializeSimulation_posted post w)) = posts w
   \<and> snd (initializeSimulation_refreshed rs w) = Returns True
   \<and> posts (fst (initializeSimulation_refreshed rs w)) = posts w
   \<and> snd (initializeSimulation config post rs w) =
       Returns (\<exists>r. post = Fulfilled r \<and> getProp (data r) ''status'' = Returns (JStr ''initialized''))
   \<and> posts (fst (initializeSimulation config post rs w)) =
       posts w @ [Post ''/simulation/initialize'' config]"
proof -
  have r: "posts (fst (controlSimulation_refreshed action rs w)) = posts w"
    "posts (fst (initializeSimulation_refreshed rs w)) = posts w"
    by (simp_all add: controlSimulation_refreshed_def initializeSimulation_refreshed_def posts_def
          command_refreshed_fields)
  have t: "snd (controlSimulation_refreshed action rs w) = Returns True"
    "snd (initializeSimulation_refreshed rs w) = Returns True"
    by (simp_all add: controlSimulation_refreshed_def initializeSimulation_refreshed_def
          command_refreshed_fields)
  note parts = controlSimulation_begin_fields(5) posted_posts r t
    initializeSimulation_begin_fields(5) controlSimulation_posted_result
    initializeSimulation_posted_result controlSimulation_result initializeSimulation_result
    controlSimulation_posts initializeSimulation_posts
  show ?thesis
    by (intro conjI) (rule parts)+
qed

text \<open>
  A second \<^verbatim>\<open>pause\<close> while the first is pending (the loading flag is set): both
  POSTs go out, and the second call answers \<^verbatim>\<open>true\<close> when its POST is acknowledged
  and \<^verbatim>\<open>false\<close> when it is rejected.
\<close>

theorem every_dispatch_issues_its_own_request_witness:
  "loading (state (controlSimulation_begin ''pause'' world0)) = True
   \<and> trace (controlSimulation_begin ''pause'' (controlSimulation_begin ''pause'' world0)) =
       [(0, Post ''/simulation/control'' (JObj [(''action'', JStr ''pause'')])),
        (0, Post ''/simulation/control'' (JObj [(''action'', JStr ''pause'')]))]
   \<and> snd (controlSimulation_posted ''pause''
            (Fulfilled (Response (JObj [(''status'', JStr ''paused'')])))
            (controlSimulation_begin ''pause'' (controlSimulation_begin ''pause'' world0))) = None
   \<and> snd (controlSimulation ''pause''
            (Fulfilled (Response (JObj [(''status'', JStr ''paused'')]))) allRejected
            (controlSimulation_begin ''pause'' world0)) = Returns True
   \<and> snd (controlSimulation ''pause''
            (Rejected (JsError ''Network Error'' None)) allRejected
            (controlSimulation_begin ''pause'' world0)) = Returns False"
proof -
  let ?ok = "Fulfilled (Response (JObj [(''status'', JStr ''paused'')]))"
  let ?down = "Rejected (JsError ''Network Error'' None)"
  let ?pending = "controlSimulation_begin ''pause'' world0"
  note first = every_dispatch_issues_its_own_request [of "''pause''" world0]
  note second = every_dispatch_issues_its_own_request [of "''pause''" ?pending ?ok allRejected]
  note third = every_dispatch_issues_its_own_request [of "''pause''" ?pending ?down allRejected]
  note again = every_dispatch_issues_its_own_request
    [of "''pause''" "controlSimulation_begin ''pause'' ?pending" ?ok]
  have l: "loading (state ?pending) = True"
    by (simp add: controlSimulation_begin_fields)
  have tr: "trace (controlSimulation_begin ''pause'' ?pending) =
       [(0, Post ''/simulation/control'' (JObj [(''action'', JStr ''pause'')])),
        (0, Post ''/simulation/control'' (JObj [(''action'', JStr ''pause'')]))]"
    using first second by (simp add: controlSimulation_begin_fields world0_def)
  have p: "snd (controlSimulation_posted ''pause'' ?ok (controlSimulation_begin ''pause'' ?pending)) = None"
    using again by simp
  have y: "snd (controlSimulation ''pause'' ?ok allRejected ?pending) = Returns True"
    using second by simp
  have n: "snd (controlSimulation ''pause'' ?down allRejected ?pending) = Returns False"
    using third by simp
  show ?thesis
    using l tr p y n by blast
qed

text \<open>
  C4 as stated has the second dispatch return a busy error and send nothing. While the
  first \<^verbatim>\<open>pause\<close> is pending the second sends its own POST, and when that is
  acknowledged the second call returns \<^verbatim>\<open>true\<close>.
\<close>

theorem second_command_is_sent_while_first_pending:
  "loading (state (controlSimulation_begin ''pause'' world0)) = True
   \<and> posts (controlSimulation_begin ''pause'' world0)
       = [Post ''/simulation/control'' (JObj [(''action'', JStr ''pause'')])]
   \<and> posts (controlSimulation_begin ''pause'' (controlSimulation_begin ''pause'' world0))
       = [Post ''/simulation/control'' (JObj [(''action'', JStr ''pause'')]),
          Post ''/simulation/control'' (JObj [(''action'', JStr ''pause'')])]
   \<and> snd (controlSimulation_refreshed ''pause'' allRejected
            (fst (controlSimulation_posted ''pause''
                    (Fulfilled (Response (JObj [(''status'', JStr ''paused'')])))
                    (controlSimulation_begin ''pause'' (controlSimulation_begin ''pause'' world0)))))
       = Returns True"
  by (simp add: posts_def controlSimulation_begin_fields world0_def
        controlSimulation_refreshed_def command_refreshed_fields)




end
